theory Spec2Isabelle
  imports Complex_Main
begin

section \<open>Python values\<close>

text \<open>
  \<open>json.loads\<close> produces \<open>None\<close>, \<open>bool\<close>, \<open>int\<close>, \<open>float\<close>, \<open>str\<close>,
  \<open>list\<close> and \<open>dict\<close> values. A dict is an association list whose keys are
  looked up with \<open>map_of\<close>. A float is a rational, an infinity or NaN; only its
  truth value is ever inspected, and both zeros are \<open>Finite 0\<close>.
\<close>

datatype pyfloat = Finite rat | Infinity bool | NaN

datatype json =
    JNull
  | JBool bool
  | JInt int
  | JFloat pyfloat
  | JStr string
  | JArr "json list"
  | JObj "(string \<times> json) list"

text \<open>
  What \<open>Path.read_text\<close> raises on a path that is a file: the file cannot be
  opened, or its bytes are not text in the default encoding.
\<close>

datatype read_error = PermissionError | UnicodeDecodeError

datatype py_error =
    AttributeError
  | KeyError
  | TypeError
  | FileNotFoundError
  | JSONDecodeError
  | ReadError read_error

text \<open>Python's truth value testing, as used by \<open>not\<close>, \<open>or\<close> and \<open>if\<close>.\<close>

fun truthy :: "json \<Rightarrow> bool" where
  "truthy JNull = False"
| "truthy (JBool b) = b"
| "truthy (JInt i) = (i \<noteq> 0)"
| "truthy (JFloat f) = (f \<noteq> Finite 0)"
| "truthy (JStr s) = (s \<noteq> [])"
| "truthy (JArr xs) = (xs \<noteq> [])"
| "truthy (JObj kvs) = (kvs \<noteq> [])"

text \<open>\<open>d.get(key)\<close> on a dict: a missing key gives \<open>None\<close>.\<close>

definition dict_get :: "(string \<times> json) list \<Rightarrow> string \<Rightarrow> json" where
  "dict_get kvs k = (case map_of kvs k of None \<Rightarrow> JNull | Some v \<Rightarrow> v)"

text \<open>
  \<open>v.get(key)\<close> on any value: only a dict has the method, every other value
  raises \<open>AttributeError\<close>.
\<close>

fun py_get :: "json \<Rightarrow> string \<Rightarrow> py_error + json" where
  "py_get (JObj kvs) k = Inr (dict_get kvs k)"
| "py_get _ k = Inl AttributeError"

text \<open>
  \<open>v[key]\<close> with a string key: a dict raises \<open>KeyError\<close> on a missing key, every
  other value raises \<open>TypeError\<close>.
\<close>

fun py_subscript :: "json \<Rightarrow> string \<Rightarrow> py_error + json" where
  "py_subscript (JObj kvs) k = (case map_of kvs k of None \<Rightarrow> Inl KeyError | Some v \<Rightarrow> Inr v)"
| "py_subscript _ k = Inl TypeError"

text \<open>\<open>s.split(sep)\<close> for a one-character separator: cuts at every occurrence.\<close>

fun split :: "char \<Rightarrow> string \<Rightarrow> string list" where
  "split sep [] = [[]]"
| "split sep (c # cs) =
     (case split sep cs of
        [] \<Rightarrow> [[c]]
      | p # ps \<Rightarrow> if c = sep then [] # p # ps else (c # p) # ps)"

text \<open>
  \<open>s.lower()\<close>, on a string as its UTF-8 bytes: the ASCII capitals are mapped to
  small letters and every other byte is kept. The result is only ever compared with
  \<open>1\<close> and \<open>true\<close>, and no character outside ASCII has one of their letters as
  its lower case.
\<close>

definition lower_char :: "char \<Rightarrow> char" where
  "lower_char c =
     (case map_of (zip ''ABCDEFGHIJKLMNOPQRSTUVWXYZ'' ''abcdefghijklmnopqrstuvwxyz'') c of
        None \<Rightarrow> c
      | Some l \<Rightarrow> l)"

definition lower :: "string \<Rightarrow> string" where
  "lower s = map lower_char s"

text \<open>Sequencing of computations that may raise.\<close>

definition and_then :: "py_error + 'a \<Rightarrow> ('a \<Rightarrow> py_error + 'b) \<Rightarrow> py_error + 'b" where
  "and_then m f = (case m of Inl e \<Rightarrow> Inl e | Inr x \<Rightarrow> f x)"

section \<open>The value tuples\<close>

text \<open>
  \<open>NamedTuple\<close> does not enforce the annotated field types: a field holds whatever
  value the constructor was given.
\<close>

datatype GitHubContextIssue = GitHubContextIssue (owner: json) (repo: json) (number: json)

datatype GitHubContextRepo = GitHubContextRepo (owner: json) (name: json)

text \<open>
  \<open>GitHubContextRepo(*parts)\<close>: the tuple takes exactly two positional arguments.
\<close>

fun GitHubContextRepo_star :: "string list \<Rightarrow> py_error + GitHubContextRepo" where
  "GitHubContextRepo_star [a, b] = Inr (GitHubContextRepo (JStr a) (JStr b))"
| "GitHubContextRepo_star _ = Inl TypeError"

section \<open>The runtime the module calls into\<close>

text \<open>
  \<open>pathlib.Path\<close>, the file system, \<open>json.loads\<close> and the process environment are
  not code of this repository; they are parameters. \<open>is_file\<close> says that a path
  is a regular file, not that it can be read: \<open>read_text\<close> gives the text of the
  file or the error it raises. \<open>json_loads\<close> returns \<open>None\<close> where Python raises
  \<open>JSONDecodeError\<close>. \<open>py_str\<close> is the built-in \<open>str()\<close>, used by an f-string
  on a value that is not already a string.
\<close>

record 'p runtime =
  mk_path :: "string \<Rightarrow> 'p"
  is_file :: "'p \<Rightarrow> bool"
  read_text :: "'p \<Rightarrow> read_error + string"
  json_loads :: "string \<Rightarrow> json option"
  os_environ :: "(string \<times> string) list"
  py_str :: "json \<Rightarrow> string"

section \<open>GithubContext\<close>

text \<open>
  The instance attributes, and the two slots that \<open>cached_property\<close> fills in the
  instance dictionary: \<open>None\<close> until the first successful read, then \<open>Some\<close> of
  the computed value.
\<close>

record ('p, 'e) GithubContext =
  event_path_attr :: "'p option"
  env :: "(string \<times> string) list"
  event :: 'e
  payload :: json
  repository_cache :: "GitHubContextRepo option option"
  issue_cache :: "GitHubContextIssue option option"

text \<open>\<open>self.env.get(key)\<close> and \<open>self.env.get(key, default)\<close>.\<close>

definition env_get :: "('p, 'e) GithubContext \<Rightarrow> string \<Rightarrow> string option" where
  "env_get self k = map_of (env self) k"

definition env_get_default :: "('p, 'e) GithubContext \<Rightarrow> string \<Rightarrow> string \<Rightarrow> string" where
  "env_get_default self k d = (case map_of (env self) k of None \<Rightarrow> d | Some v \<Rightarrow> v)"

subsection \<open>Accessors over the environment\<close>

definition action :: "('p, 'e) GithubContext \<Rightarrow> string" where
  "action self = env_get_default self ''GITHUB_ACTION'' ''''"

definition action_path :: "'p runtime \<Rightarrow> ('p, 'e) GithubContext \<Rightarrow> 'p option" where
  "action_path rt self =
     (case env_get self ''GITHUB_ACTION_PATH'' of
        None \<Rightarrow> None
      | Some v \<Rightarrow> if v \<noteq> [] then Some (mk_path rt v) else None)"

definition action_ref :: "('p, 'e) GithubContext \<Rightarrow> string option" where
  "action_ref self = env_get self ''GITHUB_ACTION_REF''"

definition action_repository :: "('p, 'e) GithubContext \<Rightarrow> string option" where
  "action_repository self = env_get self ''GITHUB_ACTION_REPOSITORY''"

definition actor :: "('p, 'e) GithubContext \<Rightarrow> string" where
  "actor self = env_get_default self ''GITHUB_ACTOR'' ''''"

definition api_url :: "('p, 'e) GithubContext \<Rightarrow> string" where
  "api_url self = env_get_default self ''GITHUB_API_URL'' ''https://api.github.com''"

definition base_ref :: "('p, 'e) GithubContext \<Rightarrow> string option" where
  "base_ref self = env_get self ''GITHUB_BASE_REF''"

definition event_name :: "('p, 'e) GithubContext \<Rightarrow> string" where
  "event_name self = env_get_default self ''GITHUB_EVENT_NAME'' ''''"

definition event_path :: "'p runtime \<Rightarrow> ('p, 'e) GithubContext \<Rightarrow> 'p option" where
  "event_path rt self =
     (case event_path_attr self of
        Some p \<Rightarrow> Some p
      | None \<Rightarrow>
          (case env_get self ''GITHUB_EVENT_PATH'' of
             None \<Rightarrow> None
           | Some v \<Rightarrow> if v \<noteq> [] then Some (mk_path rt v) else None))"

definition graphql_url :: "('p, 'e) GithubContext \<Rightarrow> string" where
  "graphql_url self = env_get_default self ''GITHUB_GRAPHQL_URL'' ''https://api.github.com/graphql''"

definition head_ref :: "('p, 'e) GithubContext \<Rightarrow> string option" where
  "head_ref self = env_get self ''GITHUB_HEAD_REF''"

definition job :: "('p, 'e) GithubContext \<Rightarrow> string option" where
  "job self = env_get self ''GITHUB_JOB''"

definition ref :: "('p, 'e) GithubContext \<Rightarrow> string" where
  "ref self = env_get_default self ''GITHUB_REF'' ''''"

definition ref_name :: "('p, 'e) GithubContext \<Rightarrow> string" where
  "ref_name self = env_get_default self ''GITHUB_REF_NAME'' ''''"

definition ref_protected :: "('p, 'e) GithubContext \<Rightarrow> bool" where
  "ref_protected self =
     (lower (env_get_default self ''GITHUB_REF_PROTECTED'' '''') \<in> set [''1'', ''true''])"

definition ref_type :: "('p, 'e) GithubContext \<Rightarrow> string" where
  "ref_type self = env_get_default self ''GITHUB_REF_TYPE'' ''branch''"

definition server_url :: "('p, 'e) GithubContext \<Rightarrow> string" where
  "server_url self = env_get_default self ''GITHUB_SERVER_URL'' ''https://github.com''"

definition sha :: "('p, 'e) GithubContext \<Rightarrow> string" where
  "sha self = env_get_default self ''GITHUB_SHA'' ''''"

definition token :: "('p, 'e) GithubContext \<Rightarrow> string" where
  "token self = env_get_default self ''GITHUB_TOKEN'' ''''"

definition triggering_actor :: "('p, 'e) GithubContext \<Rightarrow> string" where
  "triggering_actor self = env_get_default self ''GITHUB_TRIGGERING_ACTOR'' ''''"

definition workflow :: "('p, 'e) GithubContext \<Rightarrow> string" where
  "workflow self = env_get_default self ''GITHUB_WORKFLOW'' ''''"

definition workflow_ref :: "('p, 'e) GithubContext \<Rightarrow> string" where
  "workflow_ref self = env_get_default self ''GITHUB_WORKFLOW_REF'' ''''"

definition workflow_sha :: "('p, 'e) GithubContext \<Rightarrow> string" where
  "workflow_sha self = env_get_default self ''GITHUB_WORKFLOW_SHA'' ''''"

subsection \<open>repository\<close>

text \<open>The body of the \<open>repository\<close> property, run on a cache miss.\<close>

definition repository_body :: "('p, 'e) GithubContext \<Rightarrow> py_error + GitHubContextRepo option" where
  "repository_body self =
     (let from_payload =
        and_then (py_get (payload self) ''repository'') (\<lambda>repo.
          if \<not> truthy repo then Inr None
          else
            and_then (py_subscript repo ''owner'') (\<lambda>own.
            and_then (py_subscript own ''login'') (\<lambda>login.
            and_then (py_subscript repo ''name'') (\<lambda>nm.
              Inr (Some (GitHubContextRepo login nm))))))
      in
        case env_get self ''GITHUB_REPOSITORY'' of
          None \<Rightarrow> from_payload
        | Some v \<Rightarrow>
            if v \<noteq> [] then
              and_then (GitHubContextRepo_star (split CHR ''/'' v)) (\<lambda>r. Inr (Some r))
            else from_payload)"

text \<open>
  \<open>cached_property\<close>: a stored value is returned as it is; otherwise the body runs
  and its value is stored. A body that raises stores nothing.
\<close>

definition repository ::
  "('p, 'e) GithubContext \<Rightarrow> py_error + (GitHubContextRepo option \<times> ('p, 'e) GithubContext)" where
  "repository self =
     (case repository_cache self of
        Some r \<Rightarrow> Inr (r, self)
      | None \<Rightarrow>
          and_then (repository_body self) (\<lambda>r. Inr (r, self\<lparr>repository_cache := Some r\<rparr>)))"

subsection \<open>issue\<close>

text \<open>
  The body of the \<open>issue\<close> property. \<open>a or b or c\<close> is the first truthy operand,
  else the last one. Every \<open>self.repository\<close> is a read of the cached property;
  \<open>.owner\<close> and \<open>.name\<close> on \<open>None\<close> would raise \<open>AttributeError\<close>.
\<close>

definition issue_body ::
  "('p, 'e) GithubContext \<Rightarrow> py_error + (GitHubContextIssue option \<times> ('p, 'e) GithubContext)" where
  "issue_body self =
     and_then (py_get (payload self) ''issue'') (\<lambda>a.
     and_then
       (if truthy a then Inr a
        else and_then (py_get (payload self) ''pull_request'') (\<lambda>b.
               Inr (if truthy b then b else payload self))) (\<lambda>cand.
     and_then (py_get cand ''number'') (\<lambda>num.
       if \<not> truthy num then Inr (None, self)
       else
         and_then (repository self) (\<lambda>(r1, s1).
           case r1 of
             None \<Rightarrow> Inr (None, s1)
           | Some _ \<Rightarrow>
               and_then (repository s1) (\<lambda>(r2, s2).
                 case r2 of
                   None \<Rightarrow> Inl AttributeError
                 | Some x2 \<Rightarrow>
                     and_then (repository s2) (\<lambda>(r3, s3).
                       case r3 of
                         None \<Rightarrow> Inl AttributeError
                       | Some x3 \<Rightarrow>
                           Inr (Some (GitHubContextIssue
                                        (GitHubContextRepo.owner x2) (name x3) num), s3)))))))"

definition issue ::
  "('p, 'e) GithubContext \<Rightarrow> py_error + (GitHubContextIssue option \<times> ('p, 'e) GithubContext)" where
  "issue self =
     (case issue_cache self of
        Some i \<Rightarrow> Inr (i, self)
      | None \<Rightarrow>
          and_then (issue_body self) (\<lambda>(i, s). Inr (i, s\<lparr>issue_cache := Some i\<rparr>)))"

subsection \<open>repository_url\<close>

text \<open>A replacement field of an f-string: a string is inserted as it is.\<close>

definition format_value :: "'p runtime \<Rightarrow> json \<Rightarrow> string" where
  "format_value rt v = (case v of JStr s \<Rightarrow> s | _ \<Rightarrow> py_str rt v)"

definition repository_url ::
  "'p runtime \<Rightarrow> ('p, 'e) GithubContext \<Rightarrow> py_error + (string option \<times> ('p, 'e) GithubContext)" where
  "repository_url rt self =
     and_then (repository self) (\<lambda>(r1, s1).
       case r1 of
         None \<Rightarrow> Inr (None, s1)
       | Some _ \<Rightarrow>
           and_then (repository s1) (\<lambda>(r2, s2).
             case r2 of
               None \<Rightarrow> Inl AttributeError
             | Some x2 \<Rightarrow>
                 and_then (repository s2) (\<lambda>(r3, s3).
                   case r3 of
                     None \<Rightarrow> Inl AttributeError
                   | Some x3 \<Rightarrow>
                       Inr (Some (server_url self @ ''/''
                                  @ format_value rt (GitHubContextRepo.owner x2) @ ''/''
                                  @ format_value rt (name x3)), s3))))"

subsection \<open>Construction\<close>

text \<open>
  \<open>__init__\<close>. \<open>environ or os.environ.copy()\<close> takes the process environment when
  \<open>environ\<close> is \<open>None\<close> or an empty dict. The payload is assigned last; the
  \<open>event_path\<close> property that decides it reads only the two attributes set before.
\<close>

definition GithubContext_init ::
  "'p runtime \<Rightarrow> (string \<times> string) list option \<Rightarrow> 'e \<Rightarrow> 'p option
     \<Rightarrow> py_error + ('p, 'e) GithubContext" where
  "GithubContext_init rt environ ev ep =
     (let self = \<lparr>event_path_attr = ep,
                   env = (case environ of
                            None \<Rightarrow> os_environ rt
                          | Some e \<Rightarrow> if e \<noteq> [] then e else os_environ rt),
                   event = ev,
                   payload = JObj [],
                   repository_cache = None,
                   issue_cache = None\<rparr>
      in
        case event_path rt self of
          None \<Rightarrow> Inr (self\<lparr>payload := JObj []\<rparr>)
        | Some p \<Rightarrow>
            if is_file rt p then
              (case read_text rt p of
                 Inl err \<Rightarrow> Inl (ReadError err)
               | Inr txt \<Rightarrow>
                   (case json_loads rt txt of
                      None \<Rightarrow> Inl JSONDecodeError
                    | Some j \<Rightarrow> Inr (self\<lparr>payload := j\<rparr>)))
            else Inr (self\<lparr>payload := JObj []\<rparr>))"

text \<open>The \<open>event_path\<close> argument of \<open>from_file\<close> is a \<open>Path\<close>, a \<open>str\<close> or \<open>None\<close>.\<close>

datatype 'p path_or_str = PathArg 'p | StrArg string

text \<open>\<open>os.getenv(key, default)\<close> reads the process environment.\<close>

definition os_getenv :: "'p runtime \<Rightarrow> string \<Rightarrow> string \<Rightarrow> string" where
  "os_getenv rt k d = (case map_of (os_environ rt) k of None \<Rightarrow> d | Some v \<Rightarrow> v)"

definition from_file ::
  "'p runtime \<Rightarrow> (string \<times> string) list option \<Rightarrow> 'p path_or_str option
     \<Rightarrow> py_error + ('p, json) GithubContext" where
  "from_file rt environ ep =
     (let ep1 = (case ep of
                   None \<Rightarrow> StrArg (os_getenv rt ''GITHUB_EVENT_PATH'' '''')
                 | Some (StrArg s) \<Rightarrow>
                     if s = [] then StrArg (os_getenv rt ''GITHUB_EVENT_PATH'' '''')
                     else StrArg s
                 | Some (PathArg p) \<Rightarrow> PathArg p);
          p = (case ep1 of StrArg s \<Rightarrow> mk_path rt s | PathArg q \<Rightarrow> q)
      in
        if \<not> is_file rt p then Inl FileNotFoundError
        else
          (case read_text rt p of
             Inl err \<Rightarrow> Inl (ReadError err)
           | Inr txt \<Rightarrow>
               (case json_loads rt txt of
                  None \<Rightarrow> Inl JSONDecodeError
                | Some j \<Rightarrow> GithubContext_init rt environ j (Some p))))"

section \<open>Terms in which the properties are stated\<close>

text \<open>
  The specification's reading of \<open>repository\<close>: the environment value is cut at its
  first \<open>/\<close> only, and every payload without the nested fields gives no value.
\<close>

definition spec_split_first :: "string \<Rightarrow> string \<times> string" where
  "spec_split_first v =
     (takeWhile (\<lambda>c. c \<noteq> CHR ''/'') v, drop 1 (dropWhile (\<lambda>c. c \<noteq> CHR ''/'') v))"

definition spec_repository :: "('p, 'e) GithubContext \<Rightarrow> GitHubContextRepo option" where
  "spec_repository self =
     (let from_payload =
        (case payload self of
           JObj kvs \<Rightarrow>
             (case map_of kvs ''repository'' of
                Some (JObj r) \<Rightarrow>
                  (case (map_of r ''owner'', map_of r ''name'') of
                     (Some (JObj ow), Some nm) \<Rightarrow>
                       (case map_of ow ''login'' of
                          Some l \<Rightarrow> Some (GitHubContextRepo l nm)
                        | None \<Rightarrow> None)
                   | _ \<Rightarrow> None)
              | _ \<Rightarrow> None)
         | _ \<Rightarrow> None)
      in
        case env_get self ''GITHUB_REPOSITORY'' of
          None \<Rightarrow> from_payload
        | Some v \<Rightarrow>
            if v \<noteq> [] then
              Some (GitHubContextRepo (JStr (fst (spec_split_first v)))
                                      (JStr (snd (spec_split_first v))))
            else from_payload)"

text \<open>
  The candidate object of \<open>issue\<close> as the code selects it: the first of the
  \<open>issue\<close> field, the \<open>pull_request\<close> field and the payload itself that is truthy.
\<close>

definition issue_candidate :: "(string \<times> json) list \<Rightarrow> json" where
  "issue_candidate kvs =
     (if truthy (dict_get kvs ''issue'') then dict_get kvs ''issue''
      else if truthy (dict_get kvs ''pull_request'') then dict_get kvs ''pull_request''
      else JObj kvs)"

text \<open>
  The specification's reading of \<open>issue\<close>: the candidate is the \<open>issue\<close> field if
  the key is present, else the \<open>pull_request\<close> field if that key is present, else
  the payload; the repository is the value the \<open>repository\<close> accessor gave.
\<close>

definition spec_issue_candidate :: "(string \<times> json) list \<Rightarrow> json" where
  "spec_issue_candidate kvs =
     (case map_of kvs ''issue'' of
        Some v \<Rightarrow> v
      | None \<Rightarrow> (case map_of kvs ''pull_request'' of Some v \<Rightarrow> v | None \<Rightarrow> JObj kvs))"

definition spec_issue ::
  "(string \<times> json) list \<Rightarrow> GitHubContextRepo option \<Rightarrow> GitHubContextIssue option" where
  "spec_issue kvs rp =
     (let num = (case spec_issue_candidate kvs of JObj c \<Rightarrow> dict_get c ''number'' | _ \<Rightarrow> JNull)
      in if \<not> truthy num then None
         else (case rp of
                 None \<Rightarrow> None
               | Some x \<Rightarrow> Some (GitHubContextIssue (GitHubContextRepo.owner x) (name x) num)))"

text \<open>
  The environment an instance keeps: the \<open>environ\<close> argument, or the process
  environment when the argument is \<open>None\<close> or empty.
\<close>

definition environ_snapshot ::
  "'p runtime \<Rightarrow> (string \<times> string) list option \<Rightarrow> (string \<times> string) list" where
  "environ_snapshot rt environ =
     (case environ of
        None \<Rightarrow> os_environ rt
      | Some e \<Rightarrow> if e = [] then os_environ rt else e)"

text \<open>
  The specification's resolution of the payload path at construction: the explicit
  argument, else the value of \<open>GITHUB_EVENT_PATH\<close> in the snapshot, else nothing.
\<close>

definition spec_payload_path ::
  "'p runtime \<Rightarrow> (string \<times> string) list \<Rightarrow> 'p option \<Rightarrow> 'p option" where
  "spec_payload_path rt e ep =
     (case ep of
        Some p \<Rightarrow> Some p
      | None \<Rightarrow> map_option (mk_path rt) (map_of e ''GITHUB_EVENT_PATH''))"

text \<open>
  The specification's payload at construction: the parsed contents when the resolved
  path is a file that can be read, a \<open>JSONDecodeError\<close> when they do not parse, and
  the empty mapping otherwise.
\<close>

definition spec_init_payload ::
  "'p runtime \<Rightarrow> (string \<times> string) list \<Rightarrow> 'p option \<Rightarrow> py_error + json" where
  "spec_init_payload rt e ep =
     (case spec_payload_path rt e ep of
        None \<Rightarrow> Inr (JObj [])
      | Some p \<Rightarrow>
          if is_file rt p then
            (case read_text rt p of
               Inl err \<Rightarrow> Inr (JObj [])
             | Inr txt \<Rightarrow>
                 (case json_loads rt txt of
                    None \<Rightarrow> Inl JSONDecodeError
                  | Some j \<Rightarrow> Inr j))
          else Inr (JObj []))"

text \<open>
  The payload path as the code resolves it: the explicit argument, else the value of
  \<open>GITHUB_EVENT_PATH\<close> when it is not the empty string, else nothing.
\<close>

definition payload_path ::
  "'p runtime \<Rightarrow> (string \<times> string) list \<Rightarrow> 'p option \<Rightarrow> 'p option" where
  "payload_path rt e ep =
     (case ep of
        Some p \<Rightarrow> Some p
      | None \<Rightarrow>
          (case map_of e ''GITHUB_EVENT_PATH'' of
             None \<Rightarrow> None
           | Some v \<Rightarrow> if v = [] then None else Some (mk_path rt v)))"

text \<open>
  The specification's condition under which \<open>from_file\<close> does not raise
  \<open>FileNotFoundError\<close>: the explicit argument or \<open>GITHUB_EVENT_PATH\<close> names an
  existing file.
\<close>

definition spec_path_resolvable :: "'p runtime \<Rightarrow> 'p path_or_str option \<Rightarrow> bool" where
  "spec_path_resolvable rt ep =
     ((case ep of
         None \<Rightarrow> False
       | Some (PathArg p) \<Rightarrow> is_file rt p
       | Some (StrArg s) \<Rightarrow> is_file rt (mk_path rt s))
      \<or> (case map_of (os_environ rt) ''GITHUB_EVENT_PATH'' of
            None \<Rightarrow> False
          | Some v \<Rightarrow> is_file rt (mk_path rt v)))"

text \<open>
  The one path \<open>from_file\<close> looks at, given the environment \<open>e\<close> it reads
  \<open>GITHUB_EVENT_PATH\<close> from: the explicit argument when it is a \<open>Path\<close> or a
  non-empty string, else the value of the variable, else the empty path.
\<close>

definition resolved_event_path ::
  "'p runtime \<Rightarrow> (string \<times> string) list \<Rightarrow> 'p path_or_str option \<Rightarrow> 'p" where
  "resolved_event_path rt e ep =
     (case ep of
        Some (PathArg p) \<Rightarrow> p
      | Some (StrArg s) \<Rightarrow>
          if s = [] then
            mk_path rt (case map_of e ''GITHUB_EVENT_PATH'' of None \<Rightarrow> '''' | Some v \<Rightarrow> v)
          else mk_path rt s
      | None \<Rightarrow>
          mk_path rt (case map_of e ''GITHUB_EVENT_PATH'' of None \<Rightarrow> '''' | Some v \<Rightarrow> v))"

section \<open>Example instances\<close>

definition example_context :: "(string, unit) GithubContext" where
  "example_context =
     \<lparr>event_path_attr = None,
      env = [(''GITHUB_REPOSITORY'', ''acme/widgets'')],
      event = (),
      payload = JObj [(''repository'', JObj [(''owner'', JObj [(''login'', JStr ''other'')]),
                                             (''name'', JStr ''thing'')]),
                      (''number'', JInt 9)],
      repository_cache = None,
      issue_cache = None\<rparr>"

definition example_runtime :: "string runtime" where
  "example_runtime =
     \<lparr>mk_path = (\<lambda>s. s),
      is_file = (\<lambda>p. p = ''/event.json'' \<or> p = ''/bad.json'' \<or> p = ''/locked.json''),
      read_text = (\<lambda>p. if p = ''/event.json'' then Inr ''EVENT''
                        else if p = ''/locked.json'' then Inl PermissionError
                        else Inr ''BAD''),
      json_loads = (\<lambda>s. if s = ''EVENT'' then Some (JObj [(''name'', JStr ''foo'')]) else None),
      os_environ = [(''GITHUB_EVENT_PATH'', ''/event.json'')],
      py_str = (\<lambda>v. ''?'')\<rparr>"

section \<open>Auxiliary facts\<close>

lemma and_then_Inl: "and_then (Inl e) f = Inl e"
  by (simp add: and_then_def)

lemma and_then_Inr: "and_then (Inr x) f = f x"
  by (simp add: and_then_def)

lemma and_then_eq_Inr:
  "and_then m f = Inr y \<longleftrightarrow> (\<exists>x. m = Inr x \<and> f x = Inr y)"
  by (cases m) (simp_all add: and_then_def)

lemma repository_hit: "repository_cache self = Some r \<Longrightarrow> repository self = Inr (r, self)"
  by (simp add: repository_def)

lemma repository_miss:
  "repository_cache self = None \<Longrightarrow>
   repository self = and_then (repository_body self) (\<lambda>r. Inr (r, self\<lparr>repository_cache := Some r\<rparr>))"
  by (simp add: repository_def)

lemma repository_returns:
  assumes "repository self = Inr (r, s1)"
  shows "s1 = self\<lparr>repository_cache := Some r\<rparr>"
proof (cases "repository_cache self")
  case None
  with assms show ?thesis
    by (auto simp: repository_miss and_then_eq_Inr)
next
  case (Some c)
  with assms show ?thesis
    by (auto simp: repository_hit)
qed

lemma repository_again:
  assumes "repository self = Inr (r, s1)"
  shows "repository s1 = Inr (r, s1)"
  using repository_returns [OF assms] by (simp add: repository_hit)

lemma issue_hit: "issue_cache self = Some i \<Longrightarrow> issue self = Inr (i, self)"
  by (simp add: issue_def)

lemma issue_returns_cache:
  assumes "issue self = Inr (i, s2)"
  shows "issue_cache s2 = Some i"
proof (cases "issue_cache self")
  case None
  with assms show ?thesis
    by (auto simp: issue_def and_then_eq_Inr)
next
  case (Some c)
  with assms show ?thesis
    by (auto simp: issue_hit)
qed

lemma split_not_Nil: "split sep s \<noteq> []"
  by (induction s) (auto split: list.splits)

lemma split_no_sep: "sep \<notin> set s \<Longrightarrow> split sep s = [s]"
  by (induction s) auto

lemma split_one_sep:
  "sep \<notin> set a \<Longrightarrow> sep \<notin> set b \<Longrightarrow> split sep (a @ sep # b) = [a, b]"
  by (induction a) (auto simp: split_no_sep)

lemma length_split: "length (split sep s) = Suc (count_list s sep)"
  by (induction s) (auto split: list.splits simp: split_not_Nil)

lemma GitHubContextRepo_star_TypeError:
  "length parts \<noteq> 2 \<Longrightarrow> GitHubContextRepo_star parts = Inl TypeError"
  by (cases parts rule: GitHubContextRepo_star.cases) auto

section \<open>The repository derivation\<close>

text \<open>
  Claim C1, as the code has it. On a fresh instance: a \<open>GITHUB_REPOSITORY\<close> value
  \<open>a/b\<close> with exactly one \<open>/\<close> gives \<open>GitHubContextRepo(a, b)\<close> whatever the
  payload holds; a non-empty value with no \<open>/\<close> or with more than one raises
  \<open>TypeError\<close>, because the value is cut at every \<open>/\<close> and the tuple takes exactly
  two fields. With the variable unset or empty and a payload that is an object: a
  \<open>repository\<close> object with \<open>owner.login\<close> and \<open>name\<close> gives the tuple built from
  those, and a missing or falsy \<open>repository\<close> field gives no value. Each value
  returned is stored in the cache.
\<close>

theorem repository_derivation:
  assumes "repository_cache self = None"
  shows "(env_get self ''GITHUB_REPOSITORY'' = Some (a @ ''/'' @ b)
            \<and> CHR ''/'' \<notin> set a \<and> CHR ''/'' \<notin> set b \<longrightarrow>
          repository self =
            Inr (Some (GitHubContextRepo (JStr a) (JStr b)),
                 self\<lparr>repository_cache := Some (Some (GitHubContextRepo (JStr a) (JStr b)))\<rparr>))
       \<and> (env_get self ''GITHUB_REPOSITORY'' = Some v \<and> v \<noteq> []
            \<and> count_list v CHR ''/'' \<noteq> 1 \<longrightarrow>
          repository self = Inl TypeError)
       \<and> ((env_get self ''GITHUB_REPOSITORY'' = None \<or> env_get self ''GITHUB_REPOSITORY'' = Some [])
            \<and> payload self = JObj kvs \<longrightarrow>
            (map_of kvs ''repository'' = Some (JObj r) \<and> map_of r ''owner'' = Some (JObj ow)
               \<and> map_of ow ''login'' = Some l \<and> map_of r ''name'' = Some nm \<longrightarrow>
             repository self =
               Inr (Some (GitHubContextRepo l nm),
                    self\<lparr>repository_cache := Some (Some (GitHubContextRepo l nm))\<rparr>))
          \<and> (\<not> truthy (dict_get kvs ''repository'') \<longrightarrow>
             repository self = Inr (None, self\<lparr>repository_cache := Some None\<rparr>)))"
proof (intro conjI impI)
  assume h: "env_get self ''GITHUB_REPOSITORY'' = Some (a @ ''/'' @ b)
            \<and> CHR ''/'' \<notin> set a \<and> CHR ''/'' \<notin> set b"
  then have "split CHR ''/'' (a @ ''/'' @ b) = [a, b]"
    using split_one_sep [of "CHR ''/''" a b] by simp
  with h assms show "repository self =
            Inr (Some (GitHubContextRepo (JStr a) (JStr b)),
                 self\<lparr>repository_cache := Some (Some (GitHubContextRepo (JStr a) (JStr b)))\<rparr>)"
    by (simp add: repository_miss repository_body_def and_then_Inr)
next
  assume h: "env_get self ''GITHUB_REPOSITORY'' = Some v \<and> v \<noteq> []
            \<and> count_list v CHR ''/'' \<noteq> 1"
  then have "length (split CHR ''/'' v) \<noteq> 2"
    by (simp add: length_split)
  then have "GitHubContextRepo_star (split CHR ''/'' v) = Inl TypeError"
    by (rule GitHubContextRepo_star_TypeError)
  with h assms show "repository self = Inl TypeError"
    by (simp add: repository_miss repository_body_def and_then_Inl)
next
  assume e: "(env_get self ''GITHUB_REPOSITORY'' = None \<or> env_get self ''GITHUB_REPOSITORY'' = Some [])
            \<and> payload self = JObj kvs"
    and p: "map_of kvs ''repository'' = Some (JObj r) \<and> map_of r ''owner'' = Some (JObj ow)
               \<and> map_of ow ''login'' = Some l \<and> map_of r ''name'' = Some nm"
  from p have "r \<noteq> []" by auto
  with e p have "repository_body self = Inr (Some (GitHubContextRepo l nm))"
    by (auto simp: repository_body_def and_then_Inr dict_get_def)
  with assms show "repository self =
               Inr (Some (GitHubContextRepo l nm),
                    self\<lparr>repository_cache := Some (Some (GitHubContextRepo l nm))\<rparr>)"
    by (simp add: repository_miss and_then_Inr)
next
  assume e: "(env_get self ''GITHUB_REPOSITORY'' = None \<or> env_get self ''GITHUB_REPOSITORY'' = Some [])
            \<and> payload self = JObj kvs"
    and p: "\<not> truthy (dict_get kvs ''repository'')"
  then have "repository_body self = Inr None"
    by (auto simp: repository_body_def and_then_Inr)
  with assms show "repository self = Inr (None, self\<lparr>repository_cache := Some None\<rparr>)"
    by (simp add: repository_miss and_then_Inr)
qed

text \<open>
  The theorem at four instances: \<open>acme/widgets\<close> wins over a payload naming another
  repository; \<open>widgets\<close> alone raises; without the variable the payload decides;
  without either there is no value.
\<close>

theorem repository_derivation_witness:
  "repository example_context =
     Inr (Some (GitHubContextRepo (JStr ''acme'') (JStr ''widgets'')),
          example_context\<lparr>repository_cache :=
            Some (Some (GitHubContextRepo (JStr ''acme'') (JStr ''widgets'')))\<rparr>)
   \<and> repository (example_context\<lparr>env := [(''GITHUB_REPOSITORY'', ''widgets'')]\<rparr>) = Inl TypeError
   \<and> repository (example_context\<lparr>env := []\<rparr>) =
       Inr (Some (GitHubContextRepo (JStr ''other'') (JStr ''thing'')),
            example_context\<lparr>env := [], repository_cache :=
              Some (Some (GitHubContextRepo (JStr ''other'') (JStr ''thing'')))\<rparr>)
   \<and> repository (example_context\<lparr>env := [], payload := JObj []\<rparr>) =
       Inr (None, example_context\<lparr>env := [], payload := JObj [], repository_cache := Some None\<rparr>)"
  using repository_derivation [of example_context "''acme''" "''widgets''"]
        repository_derivation [of "example_context\<lparr>env := [(''GITHUB_REPOSITORY'', ''widgets'')]\<rparr>"
                                  _ _ "''widgets''"]
        repository_derivation [of "example_context\<lparr>env := []\<rparr>" _ _ _
           "[(''repository'', JObj [(''owner'', JObj [(''login'', JStr ''other'')]),
                                             (''name'', JStr ''thing'')]),
                      (''number'', JInt 9)]"
           "[(''owner'', JObj [(''login'', JStr ''other'')]), (''name'', JStr ''thing'')]"
           "[(''login'', JStr ''other'')]" "JStr ''other''" "JStr ''thing''"]
        repository_derivation [of "example_context\<lparr>env := [], payload := JObj []\<rparr>" _ _ _ "[]"]
  by (simp add: example_context_def env_get_def dict_get_def)

text \<open>
  With \<open>GITHUB_REPOSITORY=a/b/c\<close> a cut at the first \<open>/\<close> would give owner \<open>a\<close> and
  name \<open>b/c\<close>; the accessor raises \<open>TypeError\<close>.
\<close>

theorem repository_split_counterexample:
  "repository (example_context\<lparr>env := [(''GITHUB_REPOSITORY'', ''a/b/c'')]\<rparr>) = Inl TypeError
   \<and> spec_repository (example_context\<lparr>env := [(''GITHUB_REPOSITORY'', ''a/b/c'')]\<rparr>)
       = Some (GitHubContextRepo (JStr ''a'') (JStr ''b/c''))"
  by (simp add: example_context_def repository_def repository_body_def env_get_def and_then_def
      spec_repository_def spec_split_first_def)

section \<open>Memoization\<close>

text \<open>
  Claim C3, as the code has it. Once a read of \<open>repository\<close> has returned, a later
  read returns the same value and leaves the instance as it is, whatever the
  environment mapping and the payload have been replaced with in between; the same
  holds for \<open>issue\<close>. The second read does not consult either of them: the
  derivation is not run again. A read that raises found nothing stored and stores
  nothing: the next read runs the derivation again, on the environment and payload
  it then finds.
\<close>

theorem memoized_reads:
  "(repository self = Inr (r, s1) \<longrightarrow>
      repository (s1\<lparr>env := new_env, payload := new_payload\<rparr>)
        = Inr (r, s1\<lparr>env := new_env, payload := new_payload\<rparr>))
   \<and> (issue self = Inr (i, s2) \<longrightarrow>
      issue (s2\<lparr>env := new_env, payload := new_payload\<rparr>)
        = Inr (i, s2\<lparr>env := new_env, payload := new_payload\<rparr>))
   \<and> (repository self = Inl e \<longrightarrow>
      repository_cache self = None
      \<and> repository (self\<lparr>env := new_env, payload := new_payload\<rparr>)
          = and_then (repository_body (self\<lparr>env := new_env, payload := new_payload\<rparr>))
              (\<lambda>r. Inr (r, self\<lparr>env := new_env, payload := new_payload,
                                  repository_cache := Some r\<rparr>)))
   \<and> (issue self = Inl e \<longrightarrow>
      issue_cache self = None
      \<and> issue (self\<lparr>env := new_env, payload := new_payload\<rparr>)
          = and_then (issue_body (self\<lparr>env := new_env, payload := new_payload\<rparr>))
              (\<lambda>(i, s). Inr (i, s\<lparr>issue_cache := Some i\<rparr>)))"
proof (intro conjI impI)
  assume "repository self = Inr (r, s1)"
  then have "repository_cache s1 = Some r"
    using repository_returns by fastforce
  then show "repository (s1\<lparr>env := new_env, payload := new_payload\<rparr>)
        = Inr (r, s1\<lparr>env := new_env, payload := new_payload\<rparr>)"
    by (simp add: repository_hit)
next
  assume "issue self = Inr (i, s2)"
  then have "issue_cache s2 = Some i"
    by (rule issue_returns_cache)
  then show "issue (s2\<lparr>env := new_env, payload := new_payload\<rparr>)
        = Inr (i, s2\<lparr>env := new_env, payload := new_payload\<rparr>)"
    by (simp add: issue_hit)
next
  assume raised: "repository self = Inl e"
  show none: "repository_cache self = None"
  proof (cases "repository_cache self")
    case (Some c)
    with raised show ?thesis by (simp add: repository_hit)
  qed simp
  then show "repository (self\<lparr>env := new_env, payload := new_payload\<rparr>)
          = and_then (repository_body (self\<lparr>env := new_env, payload := new_payload\<rparr>))
              (\<lambda>r. Inr (r, self\<lparr>env := new_env, payload := new_payload,
                                  repository_cache := Some r\<rparr>))"
    by (simp add: repository_miss)
next
  assume raised: "issue self = Inl e"
  show none: "issue_cache self = None"
  proof (cases "issue_cache self")
    case (Some c)
    with raised show ?thesis by (simp add: issue_hit)
  qed simp
  then show "issue (self\<lparr>env := new_env, payload := new_payload\<rparr>)
          = and_then (issue_body (self\<lparr>env := new_env, payload := new_payload\<rparr>))
              (\<lambda>(i, s). Inr (i, s\<lparr>issue_cache := Some i\<rparr>))"
    by (simp add: issue_def)
qed

text \<open>
  Both reads on the example instance, then again after the environment has been
  pointed at another repository and the payload replaced by \<open>null\<close>; and an
  instance whose \<open>GITHUB_REPOSITORY\<close> has two \<open>/\<close>, where the read raises, nothing
  is stored, and the read after the variable has been set to \<open>x/y\<close> derives \<open>x/y\<close>.
\<close>

theorem memoized_reads_witness:
  "repository example_context =
     Inr (Some (GitHubContextRepo (JStr ''acme'') (JStr ''widgets'')),
          example_context\<lparr>repository_cache :=
            Some (Some (GitHubContextRepo (JStr ''acme'') (JStr ''widgets'')))\<rparr>)
   \<and> repository (example_context\<lparr>repository_cache :=
            Some (Some (GitHubContextRepo (JStr ''acme'') (JStr ''widgets''))),
            env := [(''GITHUB_REPOSITORY'', ''x/y'')], payload := JNull\<rparr>) =
     Inr (Some (GitHubContextRepo (JStr ''acme'') (JStr ''widgets'')),
          example_context\<lparr>repository_cache :=
            Some (Some (GitHubContextRepo (JStr ''acme'') (JStr ''widgets''))),
            env := [(''GITHUB_REPOSITORY'', ''x/y'')], payload := JNull\<rparr>)
   \<and> issue example_context =
     Inr (Some (GitHubContextIssue (JStr ''acme'') (JStr ''widgets'') (JInt 9)),
          example_context\<lparr>repository_cache :=
            Some (Some (GitHubContextRepo (JStr ''acme'') (JStr ''widgets''))),
            issue_cache := Some (Some (GitHubContextIssue (JStr ''acme'') (JStr ''widgets'') (JInt 9)))\<rparr>)
   \<and> issue (example_context\<lparr>repository_cache :=
            Some (Some (GitHubContextRepo (JStr ''acme'') (JStr ''widgets''))),
            issue_cache := Some (Some (GitHubContextIssue (JStr ''acme'') (JStr ''widgets'') (JInt 9))),
            env := [(''GITHUB_REPOSITORY'', ''x/y'')], payload := JNull\<rparr>) =
     Inr (Some (GitHubContextIssue (JStr ''acme'') (JStr ''widgets'') (JInt 9)),
          example_context\<lparr>repository_cache :=
            Some (Some (GitHubContextRepo (JStr ''acme'') (JStr ''widgets''))),
            issue_cache := Some (Some (GitHubContextIssue (JStr ''acme'') (JStr ''widgets'') (JInt 9))),
            env := [(''GITHUB_REPOSITORY'', ''x/y'')], payload := JNull\<rparr>)
   \<and> repository (example_context\<lparr>env := [(''GITHUB_REPOSITORY'', ''a/b/c'')]\<rparr>) = Inl TypeError
   \<and> repository_cache (example_context\<lparr>env := [(''GITHUB_REPOSITORY'', ''a/b/c'')]\<rparr>) = None
   \<and> repository (example_context\<lparr>env := [(''GITHUB_REPOSITORY'', ''x/y'')], payload := JNull\<rparr>) =
     Inr (Some (GitHubContextRepo (JStr ''x'') (JStr ''y'')),
          example_context\<lparr>env := [(''GITHUB_REPOSITORY'', ''x/y'')], payload := JNull,
            repository_cache := Some (Some (GitHubContextRepo (JStr ''x'') (JStr ''y'')))\<rparr>)"
proof -
  have r: "repository example_context =
     Inr (Some (GitHubContextRepo (JStr ''acme'') (JStr ''widgets'')),
          example_context\<lparr>repository_cache :=
            Some (Some (GitHubContextRepo (JStr ''acme'') (JStr ''widgets'')))\<rparr>)"
    by (simp add: example_context_def repository_def repository_body_def env_get_def and_then_def)
  have i: "issue example_context =
     Inr (Some (GitHubContextIssue (JStr ''acme'') (JStr ''widgets'') (JInt 9)),
          example_context\<lparr>repository_cache :=
            Some (Some (GitHubContextRepo (JStr ''acme'') (JStr ''widgets''))),
            issue_cache := Some (Some (GitHubContextIssue (JStr ''acme'') (JStr ''widgets'') (JInt 9)))\<rparr>)"
    by (simp add: example_context_def issue_def issue_body_def repository_def repository_body_def
        env_get_def and_then_def dict_get_def)
  have t: "repository (example_context\<lparr>env := [(''GITHUB_REPOSITORY'', ''a/b/c'')]\<rparr>) = Inl TypeError"
    by (simp add: example_context_def repository_def repository_body_def env_get_def and_then_def)
  have b: "repository_body
             (example_context\<lparr>env := [(''GITHUB_REPOSITORY'', ''x/y'')], payload := JNull\<rparr>)
           = Inr (Some (GitHubContextRepo (JStr ''x'') (JStr ''y'')))"
    by (simp add: example_context_def repository_body_def env_get_def and_then_def)
  show ?thesis
    using r i t b
      memoized_reads [where self = example_context and new_env = "[(''GITHUB_REPOSITORY'', ''x/y'')]"
          and new_payload = JNull]
      memoized_reads [where self = "example_context\<lparr>env := [(''GITHUB_REPOSITORY'', ''a/b/c'')]\<rparr>"
          and new_env = "[(''GITHUB_REPOSITORY'', ''x/y'')]" and new_payload = JNull
          and e = TypeError]
    by (simp add: and_then_Inr)
qed

text \<open>
  One instance read twice: with \<open>GITHUB_REPOSITORY=a/b/c\<close> the derivation runs and
  raises; after the variable has been set to \<open>a/b\<close> the second read runs the
  derivation again and returns the repository it derives from the new value.
\<close>

theorem derivation_reruns_counterexample:
  "repository (example_context\<lparr>env := [(''GITHUB_REPOSITORY'', ''a/b/c'')]\<rparr>) = Inl TypeError
   \<and> repository ((example_context\<lparr>env := [(''GITHUB_REPOSITORY'', ''a/b/c'')]\<rparr>)
                    \<lparr>env := [(''GITHUB_REPOSITORY'', ''a/b'')]\<rparr>) =
       Inr (Some (GitHubContextRepo (JStr ''a'') (JStr ''b'')),
            example_context\<lparr>env := [(''GITHUB_REPOSITORY'', ''a/b'')],
              repository_cache := Some (Some (GitHubContextRepo (JStr ''a'') (JStr ''b'')))\<rparr>)"
  by (simp add: example_context_def repository_def repository_body_def env_get_def and_then_def)

section \<open>The issue derivation\<close>

lemma issue_miss:
  "issue_cache self = None \<Longrightarrow>
   issue self = and_then (issue_body self) (\<lambda>(i, s). Inr (i, s\<lparr>issue_cache := Some i\<rparr>))"
  by (simp add: issue_def)

lemma issue_body_falsy_number:
  assumes "payload self = JObj kvs" "issue_candidate kvs = JObj c"
    and "\<not> truthy (dict_get c ''number'')"
  shows "issue_body self = Inr (None, self)"
  using assms by (auto simp: issue_body_def issue_candidate_def and_then_Inr split: if_splits)

lemma issue_body_no_repository:
  assumes "payload self = JObj kvs" "issue_candidate kvs = JObj c"
    and "truthy (dict_get c ''number'')" "repository self = Inr (None, s1)"
  shows "issue_body self = Inr (None, s1)"
  using assms by (auto simp: issue_body_def issue_candidate_def and_then_Inr split: if_splits)

lemma issue_body_repository:
  assumes "payload self = JObj kvs" "issue_candidate kvs = JObj c"
    and "truthy (dict_get c ''number'')" "repository self = Inr (Some x, s1)"
  shows "issue_body self =
           Inr (Some (GitHubContextIssue (GitHubContextRepo.owner x) (name x)
                        (dict_get c ''number'')), s1)"
proof -
  have "repository s1 = Inr (Some x, s1)"
    using assms(4) by (rule repository_again)
  with assms show ?thesis
    by (auto simp: issue_body_def issue_candidate_def and_then_Inr split: if_splits)
qed

text \<open>
  Claim C2, as the code has it. On an instance whose \<open>issue\<close> has not been read and
  whose payload is an object, the candidate is the \<open>issue\<close> field if it is truthy
  (present, not \<open>null\<close> and not empty), else the \<open>pull_request\<close> field if it is
  truthy, else the payload itself. When the candidate is an object: a missing or falsy
  \<open>number\<close> gives no value, without reading \<open>repository\<close>; a truthy \<open>number\<close>
  with no repository gives no value; and a truthy \<open>number\<close> with a repository gives
  \<open>GitHubContextIssue(repository.owner, repository.name, number)\<close>.
\<close>

theorem issue_derivation:
  assumes "issue_cache self = None" and "payload self = JObj kvs"
    and "issue_candidate kvs = JObj c"
  shows "(\<not> truthy (dict_get c ''number'') \<longrightarrow>
            issue self = Inr (None, self\<lparr>issue_cache := Some None\<rparr>))
       \<and> (truthy (dict_get c ''number'') \<and> repository self = Inr (None, s1) \<longrightarrow>
            issue self = Inr (None, s1\<lparr>issue_cache := Some None\<rparr>))
       \<and> (truthy (dict_get c ''number'') \<and> repository self = Inr (Some x, s1) \<longrightarrow>
            issue self =
              Inr (Some (GitHubContextIssue (GitHubContextRepo.owner x) (name x)
                           (dict_get c ''number'')),
                   s1\<lparr>issue_cache :=
                        Some (Some (GitHubContextIssue (GitHubContextRepo.owner x) (name x)
                                      (dict_get c ''number'')))\<rparr>))"
proof (intro conjI impI)
  assume "\<not> truthy (dict_get c ''number'')"
  then have "issue_body self = Inr (None, self)"
    using assms(2,3) by (simp add: issue_body_falsy_number)
  then show "issue self = Inr (None, self\<lparr>issue_cache := Some None\<rparr>)"
    using assms(1) by (simp add: issue_miss and_then_Inr)
next
  assume "truthy (dict_get c ''number'') \<and> repository self = Inr (None, s1)"
  then have "issue_body self = Inr (None, s1)"
    using assms(2,3) by (simp add: issue_body_no_repository)
  then show "issue self = Inr (None, s1\<lparr>issue_cache := Some None\<rparr>)"
    using assms(1) by (simp add: issue_miss and_then_Inr)
next
  assume "truthy (dict_get c ''number'') \<and> repository self = Inr (Some x, s1)"
  then have "issue_body self =
           Inr (Some (GitHubContextIssue (GitHubContextRepo.owner x) (name x)
                        (dict_get c ''number'')), s1)"
    using assms(2,3) by (simp add: issue_body_repository)
  then show "issue self =
              Inr (Some (GitHubContextIssue (GitHubContextRepo.owner x) (name x)
                           (dict_get c ''number'')),
                   s1\<lparr>issue_cache :=
                        Some (Some (GitHubContextIssue (GitHubContextRepo.owner x) (name x)
                                      (dict_get c ''number'')))\<rparr>)"
    using assms(1) by (simp add: issue_miss and_then_Inr)
qed

lemma repository_example:
  "repository example_context =
     Inr (Some (GitHubContextRepo (JStr ''acme'') (JStr ''widgets'')),
          example_context\<lparr>repository_cache :=
            Some (Some (GitHubContextRepo (JStr ''acme'') (JStr ''widgets'')))\<rparr>)"
  by (simp add: example_context_def repository_def repository_body_def env_get_def and_then_def)

text \<open>
  The theorem on the example instance, whose payload has a top-level \<open>number\<close>, and
  on a payload whose \<open>issue\<close> object has a title but no number.
\<close>

theorem issue_derivation_witness:
  "issue example_context =
     Inr (Some (GitHubContextIssue (JStr ''acme'') (JStr ''widgets'') (JInt 9)),
          example_context\<lparr>repository_cache :=
              Some (Some (GitHubContextRepo (JStr ''acme'') (JStr ''widgets''))),
            issue_cache :=
              Some (Some (GitHubContextIssue (JStr ''acme'') (JStr ''widgets'') (JInt 9)))\<rparr>)
   \<and> issue (example_context\<lparr>payload := JObj [(''issue'', JObj [(''title'', JStr ''t'')]),
                                              (''number'', JInt 9)]\<rparr>) =
     Inr (None, example_context\<lparr>payload := JObj [(''issue'', JObj [(''title'', JStr ''t'')]),
                                                  (''number'', JInt 9)],
                                issue_cache := Some None\<rparr>)"
proof -
  have c: "issue_candidate [(''repository'', JObj [(''owner'', JObj [(''login'', JStr ''other'')]),
                                             (''name'', JStr ''thing'')]),
                      (''number'', JInt 9)] = JObj [(''repository'', JObj [(''owner'', JObj [(''login'', JStr ''other'')]),
                                             (''name'', JStr ''thing'')]),
                      (''number'', JInt 9)]"
    by (simp add: issue_candidate_def dict_get_def)
  have c2: "issue_candidate [(''issue'', JObj [(''title'', JStr ''t'')]), (''number'', JInt 9)]
              = JObj [(''title'', JStr ''t'')]"
    by (simp add: issue_candidate_def dict_get_def)
  show ?thesis
    using issue_derivation [where self = example_context
          and x = "GitHubContextRepo (JStr ''acme'') (JStr ''widgets'')", OF _ _ c]
      issue_derivation [of "example_context\<lparr>payload := JObj [(''issue'', JObj [(''title'', JStr ''t'')]),
                                              (''number'', JInt 9)]\<rparr>", OF _ _ c2]
      repository_example
    apply (simp add: dict_get_def)
    apply (simp add: example_context_def)
    done
qed

text \<open>
  A payload \<open>{"issue": {}, "number": "9"}\<close>: the \<open>issue\<close> key is present, so the
  specification's candidate is the empty object and there is no number; the code
  passes over the empty object and takes the top-level number.
\<close>

theorem issue_candidate_counterexample:
  "issue (example_context\<lparr>env := [(''GITHUB_REPOSITORY'', ''user/repo'')],
                            payload := JObj [(''issue'', JObj []), (''number'', JStr ''9'')]\<rparr>) =
     Inr (Some (GitHubContextIssue (JStr ''user'') (JStr ''repo'') (JStr ''9'')),
          example_context\<lparr>env := [(''GITHUB_REPOSITORY'', ''user/repo'')],
                            payload := JObj [(''issue'', JObj []), (''number'', JStr ''9'')],
                            repository_cache :=
                              Some (Some (GitHubContextRepo (JStr ''user'') (JStr ''repo''))),
                            issue_cache :=
                              Some (Some (GitHubContextIssue (JStr ''user'') (JStr ''repo'')
                                            (JStr ''9'')))\<rparr>)
   \<and> spec_issue [(''issue'', JObj []), (''number'', JStr ''9'')]
         (Some (GitHubContextRepo (JStr ''user'') (JStr ''repo''))) = None"
  by (simp add: example_context_def issue_def issue_body_def repository_def repository_body_def
      env_get_def and_then_def dict_get_def spec_issue_def spec_issue_candidate_def)

lemma issue_body_returns:
  assumes "issue_body self = Inr (Some i, s)"
  shows "\<exists>kvs c. payload self = JObj kvs \<and> issue_candidate kvs = JObj c
           \<and> map_of c ''number'' = Some (number i)"
proof -
  from assms obtain kvs where kvs: "payload self = JObj kvs"
    by (cases "payload self") (simp_all add: issue_body_def and_then_Inl)
  from assms kvs obtain c where c: "issue_candidate kvs = JObj c"
    by (cases "issue_candidate kvs")
       (auto simp: issue_body_def issue_candidate_def and_then_Inr and_then_Inl split: if_splits)
  have t: "truthy (dict_get c ''number'')"
  proof (rule ccontr)
    assume "\<not> truthy (dict_get c ''number'')"
    then have "issue_body self = Inr (None, self)"
      using kvs c by (simp add: issue_body_falsy_number)
    with assms show False by simp
  qed
  obtain rr s1 where r: "repository self = Inr (rr, s1)"
  proof (cases "repository self")
    case (Inl e)
    with kvs c t assms have False
      by (auto simp: issue_body_def issue_candidate_def and_then_Inr and_then_Inl split: if_splits)
    then show ?thesis ..
  next
    case (Inr b)
    then show ?thesis using that by (cases b) auto
  qed
  have n: "number i = dict_get c ''number''"
  proof (cases rr)
    case None
    with r have "issue_body self = Inr (None, s1)"
      using kvs c t by (simp add: issue_body_no_repository)
    with assms show ?thesis by simp
  next
    case (Some x)
    with r have "issue_body self =
        Inr (Some (GitHubContextIssue (GitHubContextRepo.owner x) (name x) (dict_get c ''number'')), s1)"
      using kvs c t by (simp add: issue_body_repository)
    with assms show ?thesis by auto
  qed
  from t have "map_of c ''number'' = Some (dict_get c ''number'')"
    by (cases "map_of c ''number''") (simp_all add: dict_get_def)
  with kvs c n show ?thesis by simp
qed

text \<open>
  Claim C10. The \<open>number\<close> of a returned \<open>GitHubContextIssue\<close> is the value stored
  under \<open>number\<close> in the candidate object of the payload, as it is: no conversion
  to a string takes place.
\<close>

theorem issue_number_verbatim:
  assumes "issue_cache self = None" and "issue self = Inr (Some i, s2)"
  shows "\<exists>kvs c. payload self = JObj kvs \<and> issue_candidate kvs = JObj c
           \<and> map_of c ''number'' = Some (number i)"
proof -
  from assms obtain s where "issue_body self = Inr (Some i, s)"
    by (auto simp: issue_miss and_then_eq_Inr)
  then show ?thesis by (rule issue_body_returns)
qed

text \<open>
  On the example instance the payload holds the JSON number 9, and the tuple carries
  the integer 9, not the string.
\<close>

theorem issue_number_verbatim_witness:
  "issue_cache example_context = None
   \<and> issue example_context =
     Inr (Some (GitHubContextIssue (JStr ''acme'') (JStr ''widgets'') (JInt 9)),
          example_context\<lparr>repository_cache :=
              Some (Some (GitHubContextRepo (JStr ''acme'') (JStr ''widgets''))),
            issue_cache :=
              Some (Some (GitHubContextIssue (JStr ''acme'') (JStr ''widgets'') (JInt 9)))\<rparr>)
   \<and> (\<exists>kvs c. payload example_context = JObj kvs \<and> issue_candidate kvs = JObj c
           \<and> map_of c ''number'' = Some (JInt 9))"
proof -
  have a: "issue_cache example_context = None"
    by (simp add: example_context_def)
  have b: "issue example_context =
     Inr (Some (GitHubContextIssue (JStr ''acme'') (JStr ''widgets'') (JInt 9)),
          example_context\<lparr>repository_cache :=
              Some (Some (GitHubContextRepo (JStr ''acme'') (JStr ''widgets''))),
            issue_cache :=
              Some (Some (GitHubContextIssue (JStr ''acme'') (JStr ''widgets'') (JInt 9)))\<rparr>)"
    by (simp add: example_context_def issue_def issue_body_def repository_def repository_body_def
        env_get_def and_then_def dict_get_def)
  show ?thesis
    using a b issue_number_verbatim [OF a b] by simp
qed

section \<open>Missing payload fields\<close>

text \<open>
  Claim C4, as the code has it. On a fresh instance whose payload is an object: a
  candidate object without \<open>number\<close> (so a missing \<open>issue.number\<close>,
  \<open>pull_request.number\<close> or top-level \<open>number\<close>) makes \<open>issue\<close> return no value,
  and, with \<open>GITHUB_REPOSITORY\<close> unset or empty, a missing \<open>repository\<close> field
  makes \<open>repository\<close> return no value. The nested fields are read by subscript.
  With \<open>GITHUB_REPOSITORY\<close> unset or empty, \<open>repository\<close> raises \<open>KeyError\<close> on a
  non-empty \<open>repository\<close> object without \<open>owner\<close>, on one whose \<open>owner\<close> is an
  object without \<open>login\<close>, and on one whose \<open>owner\<close> is an object with \<open>login\<close>
  but which has no \<open>name\<close>; it raises \<open>TypeError\<close> on one whose \<open>owner\<close> is not an
  object. Whenever \<open>repository\<close> raises and the candidate object has a truthy
  \<open>number\<close>, \<open>issue\<close> raises the same error.
\<close>

theorem missing_payload_fields:
  assumes "repository_cache self = None" and "issue_cache self = None"
    and "payload self = JObj kvs"
  shows "(issue_candidate kvs = JObj c \<and> map_of c ''number'' = None \<longrightarrow>
            issue self = Inr (None, self\<lparr>issue_cache := Some None\<rparr>))
       \<and> (issue_candidate kvs = JObj c \<and> truthy (dict_get c ''number'')
            \<and> repository self = Inl e \<longrightarrow>
            issue self = Inl e)
       \<and> ((env_get self ''GITHUB_REPOSITORY'' = None \<or> env_get self ''GITHUB_REPOSITORY'' = Some [])
            \<longrightarrow>
            (map_of kvs ''repository'' = None \<longrightarrow>
               repository self = Inr (None, self\<lparr>repository_cache := Some None\<rparr>))
          \<and> (map_of kvs ''repository'' = Some (JObj r) \<and> r \<noteq> []
                \<and> map_of r ''owner'' = None \<longrightarrow>
               repository self = Inl KeyError)
          \<and> (map_of kvs ''repository'' = Some (JObj r) \<and> map_of r ''owner'' = Some v
                \<and> (\<forall>ow. v \<noteq> JObj ow) \<longrightarrow>
               repository self = Inl TypeError)
          \<and> (map_of kvs ''repository'' = Some (JObj r) \<and> map_of r ''owner'' = Some (JObj ow)
                \<and> map_of ow ''login'' = None \<longrightarrow>
               repository self = Inl KeyError)
          \<and> (map_of kvs ''repository'' = Some (JObj r) \<and> map_of r ''owner'' = Some (JObj ow)
                \<and> map_of ow ''login'' = Some l \<and> map_of r ''name'' = None \<longrightarrow>
               repository self = Inl KeyError))"
proof (intro conjI impI)
  assume "issue_candidate kvs = JObj c \<and> map_of c ''number'' = None"
  then have "issue_body self = Inr (None, self)"
    using assms(3) by (simp add: issue_body_falsy_number dict_get_def)
  then show "issue self = Inr (None, self\<lparr>issue_cache := Some None\<rparr>)"
    using assms(2) by (simp add: issue_miss and_then_Inr)
next
  assume "issue_candidate kvs = JObj c \<and> truthy (dict_get c ''number'')
            \<and> repository self = Inl e"
  then have "issue_body self = Inl e"
    using assms(3)
    by (auto simp: issue_body_def issue_candidate_def and_then_Inr and_then_Inl split: if_splits)
  then show "issue self = Inl e"
    using assms(2) by (simp add: issue_miss and_then_Inl)
next
  assume "env_get self ''GITHUB_REPOSITORY'' = None \<or> env_get self ''GITHUB_REPOSITORY'' = Some []"
    and "map_of kvs ''repository'' = None"
  then have "repository_body self = Inr None"
    using assms(3) by (auto simp: repository_body_def and_then_Inr dict_get_def)
  then show "repository self = Inr (None, self\<lparr>repository_cache := Some None\<rparr>)"
    using assms(1) by (simp add: repository_miss and_then_Inr)
next
  assume "env_get self ''GITHUB_REPOSITORY'' = None \<or> env_get self ''GITHUB_REPOSITORY'' = Some []"
    and "map_of kvs ''repository'' = Some (JObj r) \<and> r \<noteq> [] \<and> map_of r ''owner'' = None"
  then have "repository_body self = Inl KeyError"
    using assms(3) by (auto simp: repository_body_def and_then_Inr and_then_Inl dict_get_def)
  then show "repository self = Inl KeyError"
    using assms(1) by (simp add: repository_miss and_then_Inl)
next
  assume u: "env_get self ''GITHUB_REPOSITORY'' = None \<or> env_get self ''GITHUB_REPOSITORY'' = Some []"
    and h: "map_of kvs ''repository'' = Some (JObj r) \<and> map_of r ''owner'' = Some v
                \<and> (\<forall>ow. v \<noteq> JObj ow)"
  from h have "py_subscript v ''login'' = Inl TypeError"
    by (cases v) simp_all
  moreover from h have "r \<noteq> []" by auto
  ultimately have "repository_body self = Inl TypeError"
    using u h assms(3) by (auto simp: repository_body_def and_then_Inr and_then_Inl dict_get_def)
  then show "repository self = Inl TypeError"
    using assms(1) by (simp add: repository_miss and_then_Inl)
next
  assume "env_get self ''GITHUB_REPOSITORY'' = None \<or> env_get self ''GITHUB_REPOSITORY'' = Some []"
    and "map_of kvs ''repository'' = Some (JObj r) \<and> map_of r ''owner'' = Some (JObj ow)
                \<and> map_of ow ''login'' = None"
  then have "repository_body self = Inl KeyError"
    using assms(3) by (auto simp: repository_body_def and_then_Inr and_then_Inl dict_get_def)
  then show "repository self = Inl KeyError"
    using assms(1) by (simp add: repository_miss and_then_Inl)
next
  assume "env_get self ''GITHUB_REPOSITORY'' = None \<or> env_get self ''GITHUB_REPOSITORY'' = Some []"
    and "map_of kvs ''repository'' = Some (JObj r) \<and> map_of r ''owner'' = Some (JObj ow)
                \<and> map_of ow ''login'' = Some l \<and> map_of r ''name'' = None"
  then have "repository_body self = Inl KeyError"
    using assms(3) by (auto simp: repository_body_def and_then_Inr and_then_Inl dict_get_def)
  then show "repository self = Inl KeyError"
    using assms(1) by (simp add: repository_miss and_then_Inl)
qed

text \<open>
  One instance for each part: a pull request without a number; a payload with a
  number and a repository object without \<open>owner\<close>, where \<open>issue\<close> raises what
  \<open>repository\<close> raises; a payload without a repository; and repository objects
  lacking \<open>owner\<close>, with \<open>owner\<close> \<open>null\<close>, lacking \<open>login\<close> and lacking \<open>name\<close>.
\<close>

theorem missing_payload_fields_witness:
  "issue (example_context\<lparr>payload := JObj [(''pull_request'', JObj [(''title'', JStr ''t'')])]\<rparr>) =
     Inr (None, example_context\<lparr>payload := JObj [(''pull_request'', JObj [(''title'', JStr ''t'')])],
                                issue_cache := Some None\<rparr>)
   \<and> issue (example_context\<lparr>env := [],
        payload := JObj [(''repository'', JObj [(''name'', JStr ''widgets'')]),
                         (''number'', JInt 9)]\<rparr>) = Inl KeyError
   \<and> repository (example_context\<lparr>env := [], payload := JObj [(''number'', JInt 9)]\<rparr>) =
     Inr (None, example_context\<lparr>env := [], payload := JObj [(''number'', JInt 9)],
                                repository_cache := Some None\<rparr>)
   \<and> repository (example_context\<lparr>env := [],
        payload := JObj [(''repository'', JObj [(''name'', JStr ''widgets'')])]\<rparr>) = Inl KeyError
   \<and> repository (example_context\<lparr>env := [],
        payload := JObj [(''repository'', JObj [(''owner'', JNull),
                                               (''name'', JStr ''widgets'')])]\<rparr>) = Inl TypeError
   \<and> repository (example_context\<lparr>env := [],
        payload := JObj [(''repository'', JObj [(''owner'', JObj [(''id'', JInt 1)]),
                                               (''name'', JStr ''widgets'')])]\<rparr>) = Inl KeyError
   \<and> repository (example_context\<lparr>env := [],
        payload := JObj [(''repository'', JObj [(''owner'', JObj [(''login'', JStr ''acme'')])])]\<rparr>)
       = Inl KeyError"
proof -
  have c: "issue_candidate [(''pull_request'', JObj [(''title'', JStr ''t'')])]
             = JObj [(''title'', JStr ''t'')]"
    by (simp add: issue_candidate_def dict_get_def)
  have c2: "issue_candidate [(''repository'', JObj [(''name'', JStr ''widgets'')]),
                             (''number'', JInt 9)]
             = JObj [(''repository'', JObj [(''name'', JStr ''widgets'')]), (''number'', JInt 9)]"
    by (simp add: issue_candidate_def dict_get_def)
  have k: "repository (example_context\<lparr>env := [],
        payload := JObj [(''repository'', JObj [(''name'', JStr ''widgets'')]),
                         (''number'', JInt 9)]\<rparr>) = Inl KeyError"
    by (simp add: example_context_def repository_def repository_body_def env_get_def and_then_def
        dict_get_def)
  show ?thesis
    using
      missing_payload_fields [where self = "example_context\<lparr>payload :=
          JObj [(''pull_request'', JObj [(''title'', JStr ''t'')])]\<rparr>"
          and c = "[(''title'', JStr ''t'')]"]
      missing_payload_fields [where self = "example_context\<lparr>env := [],
          payload := JObj [(''repository'', JObj [(''name'', JStr ''widgets'')]),
                           (''number'', JInt 9)]\<rparr>"
          and c = "[(''repository'', JObj [(''name'', JStr ''widgets'')]), (''number'', JInt 9)]"
          and e = KeyError]
      missing_payload_fields [where self = "example_context\<lparr>env := [],
          payload := JObj [(''number'', JInt 9)]\<rparr>"]
      missing_payload_fields [where self = "example_context\<lparr>env := [],
          payload := JObj [(''repository'', JObj [(''name'', JStr ''widgets'')])]\<rparr>"
          and r = "[(''name'', JStr ''widgets'')]"]
      missing_payload_fields [where self = "example_context\<lparr>env := [],
          payload := JObj [(''repository'', JObj [(''owner'', JNull),
                                               (''name'', JStr ''widgets'')])]\<rparr>"
          and r = "[(''owner'', JNull), (''name'', JStr ''widgets'')]" and v = JNull]
      missing_payload_fields [where self = "example_context\<lparr>env := [],
          payload := JObj [(''repository'', JObj [(''owner'', JObj [(''id'', JInt 1)]),
                                               (''name'', JStr ''widgets'')])]\<rparr>"
          and r = "[(''owner'', JObj [(''id'', JInt 1)]), (''name'', JStr ''widgets'')]"
          and ow = "[(''id'', JInt 1)]"]
      missing_payload_fields [where self = "example_context\<lparr>env := [],
          payload := JObj [(''repository'', JObj [(''owner'', JObj [(''login'', JStr ''acme'')])])]\<rparr>"
          and r = "[(''owner'', JObj [(''login'', JStr ''acme'')])]"
          and ow = "[(''login'', JStr ''acme'')]"]
      c c2 k
    by (simp add: example_context_def env_get_def dict_get_def)
qed

text \<open>
  The payload \<open>{"repository": {"name": "widgets"}}\<close> is a JSON object with
  \<open>repository.owner\<close> missing: \<open>repository\<close> raises \<open>KeyError\<close>, and so does
  \<open>issue\<close> once the payload also carries a number.
\<close>

theorem repository_missing_owner_counterexample:
  "repository (example_context\<lparr>env := [],
        payload := JObj [(''repository'', JObj [(''name'', JStr ''widgets'')])]\<rparr>) = Inl KeyError
   \<and> issue (example_context\<lparr>env := [],
        payload := JObj [(''repository'', JObj [(''name'', JStr ''widgets'')]),
                         (''number'', JInt 9)]\<rparr>) = Inl KeyError"
  by (simp add: example_context_def issue_def issue_body_def repository_def repository_body_def
      env_get_def and_then_def dict_get_def)

section \<open>repository_url\<close>

text \<open>
  Claim C8. When \<open>repository\<close> returns no value, \<open>repository_url\<close> returns no
  value; when it returns a tuple, \<open>repository_url\<close> returns the server URL, the
  owner and the name joined by \<open>/\<close>. With \<open>GITHUB_SERVER_URL\<close> unset and string
  fields \<open>a\<close> and \<open>b\<close> this is \<open>https://github.com/a/b\<close>.
\<close>

theorem repository_url_format:
  assumes "repository self = Inr (rr, s1)"
  shows "(rr = None \<longrightarrow> repository_url rt self = Inr (None, s1))
       \<and> (rr = Some x \<longrightarrow>
            repository_url rt self =
              Inr (Some (server_url self @ ''/'' @ format_value rt (GitHubContextRepo.owner x)
                          @ ''/'' @ format_value rt (name x)), s1))
       \<and> (rr = Some (GitHubContextRepo (JStr a) (JStr b))
            \<and> env_get self ''GITHUB_SERVER_URL'' = None \<longrightarrow>
            repository_url rt self = Inr (Some (''https://github.com/'' @ a @ ''/'' @ b), s1))"
proof -
  have again: "repository s1 = Inr (rr, s1)"
    using assms by (rule repository_again)
  have some: "repository_url rt self =
              Inr (Some (server_url self @ ''/'' @ format_value rt (GitHubContextRepo.owner y)
                          @ ''/'' @ format_value rt (name y)), s1)" if "rr = Some y" for y
    using that assms again by (simp add: repository_url_def and_then_Inr)
  have none: "repository_url rt self = Inr (None, s1)" if "rr = None"
    using that assms by (simp add: repository_url_def and_then_Inr)
  have default: "server_url self = ''https://github.com''"
    if "env_get self ''GITHUB_SERVER_URL'' = None"
    using that by (simp add: server_url_def env_get_default_def env_get_def)
  show ?thesis
    using some none default by (auto simp: format_value_def)
qed

text \<open>The example instance, and an instance with neither source of a repository.\<close>

theorem repository_url_format_witness:
  "repository_url example_runtime example_context =
     Inr (Some ''https://github.com/acme/widgets'',
          example_context\<lparr>repository_cache :=
            Some (Some (GitHubContextRepo (JStr ''acme'') (JStr ''widgets'')))\<rparr>)
   \<and> repository_url example_runtime (example_context\<lparr>env := [], payload := JObj []\<rparr>) =
     Inr (None, example_context\<lparr>env := [], payload := JObj [], repository_cache := Some None\<rparr>)"
proof -
  have n: "repository (example_context\<lparr>env := [], payload := JObj []\<rparr>) =
     Inr (None, example_context\<lparr>env := [], payload := JObj [], repository_cache := Some None\<rparr>)"
    by (simp add: example_context_def repository_def repository_body_def env_get_def and_then_def
        dict_get_def)
  have e: "env_get example_context ''GITHUB_SERVER_URL'' = None"
    by (simp add: example_context_def env_get_def)
  show ?thesis
    using repository_url_format [OF repository_example, where a = "''acme''" and b = "''widgets''"
            and rt = example_runtime]
      repository_url_format [OF n, where rt = example_runtime] e
    by simp
qed

section \<open>Construction\<close>

text \<open>
  Claim C9. A constructor call with an empty \<open>environ\<close> mapping is the same as a
  call without one: the instance keeps a copy of the process environment. Only a
  non-empty \<open>environ\<close> is kept as given.
\<close>

theorem empty_environ_is_replaced:
  "GithubContext_init rt (Some []) ev ep = GithubContext_init rt None ev ep
   \<and> (GithubContext_init rt None ev ep = Inr c0 \<longrightarrow> env c0 = os_environ rt)
   \<and> (e \<noteq> [] \<and> GithubContext_init rt (Some e) ev ep = Inr c1 \<longrightarrow> env c1 = e)"
  by (auto simp: GithubContext_init_def Let_def split: option.splits if_splits sum.splits)

text \<open>
  With an empty mapping the instance has the process environment and loads the
  payload its \<open>GITHUB_EVENT_PATH\<close> names; a non-empty mapping is kept.
\<close>

theorem empty_environ_is_replaced_witness:
  "GithubContext_init example_runtime (Some []) () None =
     Inr \<lparr>event_path_attr = None, env = [(''GITHUB_EVENT_PATH'', ''/event.json'')], event = (),
          payload = JObj [(''name'', JStr ''foo'')], repository_cache = None, issue_cache = None\<rparr>
   \<and> GithubContext_init example_runtime None () None =
     Inr \<lparr>event_path_attr = None, env = [(''GITHUB_EVENT_PATH'', ''/event.json'')], event = (),
          payload = JObj [(''name'', JStr ''foo'')], repository_cache = None, issue_cache = None\<rparr>
   \<and> GithubContext_init example_runtime (Some [(''GITHUB_ACTOR'', ''user'')]) () None =
     Inr \<lparr>event_path_attr = None, env = [(''GITHUB_ACTOR'', ''user'')], event = (),
          payload = JObj [], repository_cache = None, issue_cache = None\<rparr>
   \<and> env \<lparr>event_path_attr = None, env = [(''GITHUB_ACTOR'', ''user'')], event = (),
          payload = JObj [], repository_cache = None, issue_cache = None\<rparr>
       = [(''GITHUB_ACTOR'', ''user'')]"
proof -
  have a: "GithubContext_init example_runtime None () None =
     Inr \<lparr>event_path_attr = None, env = [(''GITHUB_EVENT_PATH'', ''/event.json'')], event = (),
          payload = JObj [(''name'', JStr ''foo'')], repository_cache = None, issue_cache = None\<rparr>"
    by (simp add: GithubContext_init_def example_runtime_def event_path_def env_get_def)
  have b: "GithubContext_init example_runtime (Some [(''GITHUB_ACTOR'', ''user'')]) () None =
     Inr \<lparr>event_path_attr = None, env = [(''GITHUB_ACTOR'', ''user'')], event = (),
          payload = JObj [], repository_cache = None, issue_cache = None\<rparr>"
    by (simp add: GithubContext_init_def example_runtime_def event_path_def env_get_def)
  show ?thesis
    using a b
      empty_environ_is_replaced [where rt = example_runtime and ev = "()" and ep = None
        and e = "[(''GITHUB_ACTOR'', ''user'')]"]
    by simp
qed

text \<open>
  Claim C7, as the code has it. The payload path is the explicit \<open>event_path\<close>
  argument, else the value of \<open>GITHUB_EVENT_PATH\<close> in the instance's environment
  when that value is not the empty string, else nothing; it is what the
  \<open>event_path\<close> accessor of the instance returns. If the path is a file, its text is
  read, parsed and stored as the payload; a file that cannot be read or decoded makes
  the constructor raise the read error, and a text that does not parse makes it raise
  \<open>JSONDecodeError\<close>. If there is no path or it is not a file, the payload is the
  empty mapping.
\<close>

theorem init_payload:
  "case payload_path rt (environ_snapshot rt environ) ep of
     None \<Rightarrow>
       (\<exists>c. GithubContext_init rt environ ev ep = Inr c \<and> payload c = JObj []
          \<and> event_path rt c = None)
   | Some p \<Rightarrow>
       if is_file rt p then
         (case read_text rt p of
            Inl err \<Rightarrow> GithubContext_init rt environ ev ep = Inl (ReadError err)
          | Inr txt \<Rightarrow>
              (case json_loads rt txt of
                 None \<Rightarrow> GithubContext_init rt environ ev ep = Inl JSONDecodeError
               | Some j \<Rightarrow>
                   (\<exists>c. GithubContext_init rt environ ev ep = Inr c \<and> payload c = j
                      \<and> event_path rt c = Some p)))
       else
         (\<exists>c. GithubContext_init rt environ ev ep = Inr c \<and> payload c = JObj []
            \<and> event_path rt c = Some p)"
  by (auto simp: GithubContext_init_def Let_def event_path_def env_get_def payload_path_def
      environ_snapshot_def split: option.splits sum.splits)

text \<open>
  The path from the environment, an explicit path that is not a file, explicit paths
  to a file that does not parse and to a file that cannot be read, and an environment
  without the variable.
\<close>

theorem init_payload_witness:
  "(\<exists>c. GithubContext_init example_runtime None () None = Inr c
        \<and> payload c = JObj [(''name'', JStr ''foo'')]
        \<and> event_path example_runtime c = Some ''/event.json'')
   \<and> (\<exists>c. GithubContext_init example_runtime None () (Some ''/missing.json'') = Inr c
        \<and> payload c = JObj [] \<and> event_path example_runtime c = Some ''/missing.json'')
   \<and> GithubContext_init example_runtime None () (Some ''/bad.json'') = Inl JSONDecodeError
   \<and> GithubContext_init example_runtime None () (Some ''/locked.json'')
       = Inl (ReadError PermissionError)
   \<and> (\<exists>c. GithubContext_init example_runtime (Some [(''GITHUB_ACTOR'', ''user'')]) () None
             = Inr c
        \<and> payload c = JObj [] \<and> event_path example_runtime c = None)"
  using
    init_payload [where rt = example_runtime and environ = None and ep = None and ev = "()"]
    init_payload [where rt = example_runtime and environ = None
      and ep = "Some ''/missing.json''" and ev = "()"]
    init_payload [where rt = example_runtime and environ = None
      and ep = "Some ''/bad.json''" and ev = "()"]
    init_payload [where rt = example_runtime and environ = None
      and ep = "Some ''/locked.json''" and ev = "()"]
    init_payload [where rt = example_runtime and environ = "Some [(''GITHUB_ACTOR'', ''user'')]"
      and ep = None and ev = "()"]
  by (simp add: payload_path_def environ_snapshot_def example_runtime_def)

text \<open>
  A path that is a file but cannot be read: the specification gives the empty mapping,
  the constructor raises. And \<open>GITHUB_EVENT_PATH\<close> set to the empty string: the
  specification resolves the empty path, the instance has no path.
\<close>

theorem unreadable_payload_counterexample:
  "GithubContext_init example_runtime None () (Some ''/locked.json'')
     = Inl (ReadError PermissionError)
   \<and> spec_init_payload example_runtime (environ_snapshot example_runtime None)
        (Some ''/locked.json'') = Inr (JObj [])
   \<and> map_sum id (event_path example_runtime)
        (GithubContext_init example_runtime (Some [(''GITHUB_EVENT_PATH'', '''')]) () None)
       = Inr None
   \<and> spec_payload_path example_runtime
        (environ_snapshot example_runtime (Some [(''GITHUB_EVENT_PATH'', '''')])) None
       = Some ''''"
  by (simp add: GithubContext_init_def event_path_def env_get_def spec_init_payload_def
      spec_payload_path_def environ_snapshot_def example_runtime_def)

lemma init_explicit_path:
  assumes "is_file rt p" and "read_text rt p = Inr txt" and "json_loads rt txt = Some j"
  shows "\<exists>c. GithubContext_init rt environ ev (Some p) = Inr c \<and> event c = ev
           \<and> payload c = j \<and> event_path rt c = Some p"
  using assms by (simp add: GithubContext_init_def Let_def event_path_def)

lemma from_file_unfold:
  "from_file rt environ ep =
     (if \<not> is_file rt (resolved_event_path rt (os_environ rt) ep) then Inl FileNotFoundError
      else (case read_text rt (resolved_event_path rt (os_environ rt) ep) of
              Inl err \<Rightarrow> Inl (ReadError err)
            | Inr txt \<Rightarrow>
                (case json_loads rt txt of
                   None \<Rightarrow> Inl JSONDecodeError
                 | Some j \<Rightarrow>
                     GithubContext_init rt environ j
                       (Some (resolved_event_path rt (os_environ rt) ep)))))"
proof (cases ep)
  case None
  then show ?thesis
    by (simp add: from_file_def resolved_event_path_def os_getenv_def Let_def
        cong: sum.case_cong option.case_cong)
next
  case (Some a)
  then show ?thesis
    by (cases a)
       (simp_all add: from_file_def resolved_event_path_def os_getenv_def Let_def
          cong: sum.case_cong option.case_cong)
qed

lemma resolved_event_path_cong:
  "(ep = None \<or> ep = Some (StrArg []) \<Longrightarrow>
      map_of e ''GITHUB_EVENT_PATH'' = map_of e' ''GITHUB_EVENT_PATH'') \<Longrightarrow>
   resolved_event_path rt e ep = resolved_event_path rt e' ep"
  by (cases ep rule: option.exhaust;
      simp add: resolved_event_path_def split: path_or_str.splits)

text \<open>
  Claim C5, as the code has it. Where \<open>GITHUB_EVENT_PATH\<close> is consulted (no explicit
  argument, or an empty string), it is taken to have the same value in the process
  environment and in the environment of the instance. \<open>from_file\<close> raises
  \<open>FileNotFoundError\<close> exactly when the one path it resolves is not a file: the
  explicit argument when given and non-empty, with no fallback to the environment,
  else the value of \<open>GITHUB_EVENT_PATH\<close>. When that path is a file whose text is read
  and parses, the instance returned has the parsed value as its event and as its
  payload, and its \<open>event_path\<close> is that path; when the text does not parse,
  \<open>JSONDecodeError\<close> is raised, and when the file cannot be read or decoded, the read
  error.
\<close>

theorem from_file_result:
  assumes "ep = None \<or> ep = Some (StrArg []) \<Longrightarrow>
           map_of (environ_snapshot rt environ) ''GITHUB_EVENT_PATH''
             = map_of (os_environ rt) ''GITHUB_EVENT_PATH''"
  shows "(from_file rt environ ep = Inl FileNotFoundError
            \<longleftrightarrow> \<not> is_file rt (resolved_event_path rt (environ_snapshot rt environ) ep))
       \<and> (is_file rt (resolved_event_path rt (environ_snapshot rt environ) ep)
            \<and> read_text rt (resolved_event_path rt (environ_snapshot rt environ) ep) = Inr content
            \<and> json_loads rt content = Some j \<longrightarrow>
           (\<exists>c. from_file rt environ ep = Inr c \<and> event c = j \<and> payload c = j
              \<and> event_path rt c
                   = Some (resolved_event_path rt (environ_snapshot rt environ) ep)))
       \<and> (is_file rt (resolved_event_path rt (environ_snapshot rt environ) ep)
            \<and> read_text rt (resolved_event_path rt (environ_snapshot rt environ) ep) = Inr content
            \<and> json_loads rt content = None \<longrightarrow>
           from_file rt environ ep = Inl JSONDecodeError)
       \<and> (is_file rt (resolved_event_path rt (environ_snapshot rt environ) ep)
            \<and> read_text rt (resolved_event_path rt (environ_snapshot rt environ) ep) = Inl err
            \<longrightarrow>
           from_file rt environ ep = Inl (ReadError err))"
proof -
  define p where "p = resolved_event_path rt (os_environ rt) ep"
  have same: "resolved_event_path rt (environ_snapshot rt environ) ep = p"
    unfolding p_def using assms by (rule resolved_event_path_cong)
  have unfold: "from_file rt environ ep =
     (if \<not> is_file rt p then Inl FileNotFoundError
      else (case read_text rt p of
              Inl err \<Rightarrow> Inl (ReadError err)
            | Inr txt \<Rightarrow>
                (case json_loads rt txt of
                   None \<Rightarrow> Inl JSONDecodeError
                 | Some j \<Rightarrow> GithubContext_init rt environ j (Some p))))"
    unfolding p_def by (rule from_file_unfold)
  have returns: "\<exists>c. from_file rt environ ep = Inr c \<and> event c = k \<and> payload c = k
          \<and> event_path rt c = Some p"
    if "is_file rt p" and "read_text rt p = Inr t" and "json_loads rt t = Some k" for t k
    using that init_explicit_path [of rt p t k environ k] by (simp add: unfold)
  have malformed: "from_file rt environ ep = Inl JSONDecodeError"
    if "is_file rt p" and "read_text rt p = Inr t" and "json_loads rt t = None" for t
    using that by (simp add: unfold)
  have unreadable: "from_file rt environ ep = Inl (ReadError x)"
    if "is_file rt p" and "read_text rt p = Inl x" for x
    using that by (simp add: unfold)
  have raises: "from_file rt environ ep = Inl FileNotFoundError \<longleftrightarrow> \<not> is_file rt p"
  proof (cases "is_file rt p")
    case False
    then show ?thesis by (simp add: unfold)
  next
    case True
    show ?thesis
    proof (cases "read_text rt p")
      case (Inl x)
      with True unreadable show ?thesis by simp
    next
      case (Inr t)
      show ?thesis
      proof (cases "json_loads rt t")
        case None
        with True Inr malformed show ?thesis by simp
      next
        case (Some k)
        with True Inr returns [of t k] show ?thesis by auto
      qed
    qed
  qed
  show ?thesis
    unfolding same using raises returns malformed unreadable by blast
qed

text \<open>
  An explicit path that is not a file, explicit paths whose text does not parse and
  that cannot be read, and no argument with \<open>GITHUB_EVENT_PATH\<close> naming a file that
  parses, once without an \<open>environ\<close> and once with one that sets the variable to the
  same value.
\<close>

theorem from_file_result_witness:
  "from_file example_runtime None (Some (StrArg ''/missing.json'')) = Inl FileNotFoundError
   \<and> from_file example_runtime None (Some (PathArg ''/bad.json'')) = Inl JSONDecodeError
   \<and> from_file example_runtime None (Some (PathArg ''/locked.json''))
       = Inl (ReadError PermissionError)
   \<and> (\<exists>c. from_file example_runtime None None = Inr c
          \<and> event c = JObj [(''name'', JStr ''foo'')]
          \<and> payload c = JObj [(''name'', JStr ''foo'')]
          \<and> event_path example_runtime c = Some ''/event.json'')
   \<and> (\<exists>c. from_file example_runtime
               (Some [(''GITHUB_ACTOR'', ''user''), (''GITHUB_EVENT_PATH'', ''/event.json'')]) None
             = Inr c
          \<and> event c = JObj [(''name'', JStr ''foo'')]
          \<and> payload c = JObj [(''name'', JStr ''foo'')]
          \<and> event_path example_runtime c = Some ''/event.json'')"
  using from_file_result [where rt = example_runtime and environ = None
          and ep = "Some (StrArg ''/missing.json'')"]
        from_file_result [where rt = example_runtime and environ = None
          and ep = "Some (PathArg ''/bad.json'')" and content = "''BAD''"]
        from_file_result [where rt = example_runtime and environ = None
          and ep = "Some (PathArg ''/locked.json'')" and err = PermissionError]
        from_file_result [where rt = example_runtime and environ = None and ep = None
          and content = "''EVENT''" and j = "JObj [(''name'', JStr ''foo'')]"]
        from_file_result [where rt = example_runtime
          and environ = "Some [(''GITHUB_ACTOR'', ''user''), (''GITHUB_EVENT_PATH'', ''/event.json'')]"
          and ep = None and content = "''EVENT''" and j = "JObj [(''name'', JStr ''foo'')]"]
  by (simp add: resolved_event_path_def environ_snapshot_def example_runtime_def)

text \<open>
  An explicit path that does not exist, while \<open>GITHUB_EVENT_PATH\<close> names an existing
  file both in the process environment and in \<open>environ\<close>: a path to an existing file
  can be resolved, and \<open>from_file\<close> raises \<open>FileNotFoundError\<close>.
\<close>

theorem from_file_explicit_path_counterexample:
  "from_file example_runtime (Some [(''GITHUB_EVENT_PATH'', ''/event.json'')])
     (Some (PathArg ''/missing.json'')) = Inl FileNotFoundError
   \<and> spec_path_resolvable example_runtime (Some (PathArg ''/missing.json''))"
  by (simp add: from_file_def spec_path_resolvable_def example_runtime_def)

section \<open>Accessors over the environment\<close>

lemma lower_Nil: "lower [] = []"
  by (simp add: lower_def)

text \<open>
  Claim C6, as the code has it. Each accessor of the table returns its default when
  its variable is unset and the value \<open>v\<close> when it is set, with two exceptions:
  \<open>action_path\<close> returns \<open>v\<close> as a path when \<open>v\<close> is not empty and nothing when
  \<open>v\<close> is the empty string, and \<open>ref_protected\<close> is true exactly when \<open>v\<close> in
  lower case is \<open>1\<close> or \<open>true\<close>.
\<close>

theorem passthrough_accessors:
  "(env_get self ''GITHUB_ACTION'' = None \<longrightarrow> action self = '''')
   \<and> (env_get self ''GITHUB_ACTION'' = Some v \<longrightarrow> action self = v)
   \<and> (env_get self ''GITHUB_ACTOR'' = None \<longrightarrow> actor self = '''')
   \<and> (env_get self ''GITHUB_ACTOR'' = Some v \<longrightarrow> actor self = v)
   \<and> (env_get self ''GITHUB_API_URL'' = None \<longrightarrow> api_url self = ''https://api.github.com'')
   \<and> (env_get self ''GITHUB_API_URL'' = Some v \<longrightarrow> api_url self = v)
   \<and> (env_get self ''GITHUB_EVENT_NAME'' = None \<longrightarrow> event_name self = '''')
   \<and> (env_get self ''GITHUB_EVENT_NAME'' = Some v \<longrightarrow> event_name self = v)
   \<and> (env_get self ''GITHUB_GRAPHQL_URL'' = None \<longrightarrow> graphql_url self = ''https://api.github.com/graphql'')
   \<and> (env_get self ''GITHUB_GRAPHQL_URL'' = Some v \<longrightarrow> graphql_url self = v)
   \<and> (env_get self ''GITHUB_REF'' = None \<longrightarrow> ref self = '''')
   \<and> (env_get self ''GITHUB_REF'' = Some v \<longrightarrow> ref self = v)
   \<and> (env_get self ''GITHUB_REF_NAME'' = None \<longrightarrow> ref_name self = '''')
   \<and> (env_get self ''GITHUB_REF_NAME'' = Some v \<longrightarrow> ref_name self = v)
   \<and> (env_get self ''GITHUB_REF_TYPE'' = None \<longrightarrow> ref_type self = ''branch'')
   \<and> (env_get self ''GITHUB_REF_TYPE'' = Some v \<longrightarrow> ref_type self = v)
   \<and> (env_get self ''GITHUB_SERVER_URL'' = None \<longrightarrow> server_url self = ''https://github.com'')
   \<and> (env_get self ''GITHUB_SERVER_URL'' = Some v \<longrightarrow> server_url self = v)
   \<and> (env_get self ''GITHUB_SHA'' = None \<longrightarrow> sha self = '''')
   \<and> (env_get self ''GITHUB_SHA'' = Some v \<longrightarrow> sha self = v)
   \<and> (env_get self ''GITHUB_TOKEN'' = None \<longrightarrow> token self = '''')
   \<and> (env_get self ''GITHUB_TOKEN'' = Some v \<longrightarrow> token self = v)
   \<and> (env_get self ''GITHUB_TRIGGERING_ACTOR'' = None \<longrightarrow> triggering_actor self = '''')
   \<and> (env_get self ''GITHUB_TRIGGERING_ACTOR'' = Some v \<longrightarrow> triggering_actor self = v)
   \<and> (env_get self ''GITHUB_WORKFLOW'' = None \<longrightarrow> workflow self = '''')
   \<and> (env_get self ''GITHUB_WORKFLOW'' = Some v \<longrightarrow> workflow self = v)
   \<and> (env_get self ''GITHUB_WORKFLOW_REF'' = None \<longrightarrow> workflow_ref self = '''')
   \<and> (env_get self ''GITHUB_WORKFLOW_REF'' = Some v \<longrightarrow> workflow_ref self = v)
   \<and> (env_get self ''GITHUB_WORKFLOW_SHA'' = None \<longrightarrow> workflow_sha self = '''')
   \<and> (env_get self ''GITHUB_WORKFLOW_SHA'' = Some v \<longrightarrow> workflow_sha self = v)
   \<and> (env_get self ''GITHUB_ACTION_REF'' = None \<longrightarrow> action_ref self = None)
   \<and> (env_get self ''GITHUB_ACTION_REF'' = Some v \<longrightarrow> action_ref self = Some v)
   \<and> (env_get self ''GITHUB_ACTION_REPOSITORY'' = None \<longrightarrow> action_repository self = None)
   \<and> (env_get self ''GITHUB_ACTION_REPOSITORY'' = Some v \<longrightarrow> action_repository self = Some v)
   \<and> (env_get self ''GITHUB_BASE_REF'' = None \<longrightarrow> base_ref self = None)
   \<and> (env_get self ''GITHUB_BASE_REF'' = Some v \<longrightarrow> base_ref self = Some v)
   \<and> (env_get self ''GITHUB_HEAD_REF'' = None \<longrightarrow> head_ref self = None)
   \<and> (env_get self ''GITHUB_HEAD_REF'' = Some v \<longrightarrow> head_ref self = Some v)
   \<and> (env_get self ''GITHUB_JOB'' = None \<longrightarrow> job self = None)
   \<and> (env_get self ''GITHUB_JOB'' = Some v \<longrightarrow> job self = Some v)
   \<and> (env_get self ''GITHUB_ACTION_PATH'' = None \<longrightarrow> action_path rt self = None)
   \<and> (env_get self ''GITHUB_ACTION_PATH'' = Some v \<longrightarrow>
      action_path rt self = (if v = [] then None else Some (mk_path rt v)))
   \<and> (env_get self ''GITHUB_REF_PROTECTED'' = None \<longrightarrow> \<not> ref_protected self)
   \<and> (env_get self ''GITHUB_REF_PROTECTED'' = Some v \<longrightarrow>
      ref_protected self = (lower v = ''1'' \<or> lower v = ''true''))"
  by (simp add: env_get_def env_get_default_def lower_Nil
      action_def actor_def api_url_def event_name_def graphql_url_def ref_def ref_name_def ref_type_def server_url_def sha_def token_def triggering_actor_def workflow_def workflow_ref_def workflow_sha_def action_ref_def action_repository_def base_ref_def head_ref_def job_def action_path_def ref_protected_def)

text \<open>
  An environment that sets three of the variables, and the example instance, which
  sets none of those read here.
\<close>

theorem passthrough_accessors_witness:
  "action (example_context\<lparr>env := [(''GITHUB_ACTION'', ''run1''), (''GITHUB_ACTION_PATH'', ''/a''),
       (''GITHUB_REF_PROTECTED'', ''True'')]\<rparr>) = ''run1''
   \<and> api_url example_context = ''https://api.github.com''
   \<and> ref_type example_context = ''branch''
   \<and> job example_context = None
   \<and> action_path example_runtime (example_context\<lparr>env := [(''GITHUB_ACTION'', ''run1''),
       (''GITHUB_ACTION_PATH'', ''/a''), (''GITHUB_REF_PROTECTED'', ''True'')]\<rparr>) = Some ''/a''
   \<and> ref_protected (example_context\<lparr>env := [(''GITHUB_ACTION'', ''run1''),
       (''GITHUB_ACTION_PATH'', ''/a''), (''GITHUB_REF_PROTECTED'', ''True'')]\<rparr>)
   \<and> \<not> ref_protected example_context"
proof -
  have l: "lower ''True'' = ''true''"
    by (simp add: lower_def lower_char_def)
  show ?thesis
    using passthrough_accessors [where self = "example_context\<lparr>env := [(''GITHUB_ACTION'', ''run1''),
       (''GITHUB_ACTION_PATH'', ''/a''), (''GITHUB_REF_PROTECTED'', ''True'')]\<rparr>"
          and v = "''run1''"]
      passthrough_accessors [where self = "example_context\<lparr>env := [(''GITHUB_ACTION'', ''run1''),
       (''GITHUB_ACTION_PATH'', ''/a''), (''GITHUB_REF_PROTECTED'', ''True'')]\<rparr>"
          and v = "''/a''" and rt = example_runtime]
      passthrough_accessors [where self = "example_context\<lparr>env := [(''GITHUB_ACTION'', ''run1''),
       (''GITHUB_ACTION_PATH'', ''/a''), (''GITHUB_REF_PROTECTED'', ''True'')]\<rparr>"
          and v = "''True''"]
      passthrough_accessors [where self = example_context] l
    by (simp add: env_get_def example_context_def example_runtime_def)
qed

text \<open>
  \<open>GITHUB_ACTION_PATH\<close> set to the empty string: \<open>action_path\<close> returns nothing, not
  the value it is set to.
\<close>

theorem action_path_empty_counterexample:
  "env_get (example_context\<lparr>env := [(''GITHUB_ACTION_PATH'', '''')]\<rparr>) ''GITHUB_ACTION_PATH''
     = Some ''''
   \<and> action_path example_runtime (example_context\<lparr>env := [(''GITHUB_ACTION_PATH'', '''')]\<rparr>) = None
   \<and> action_path example_runtime (example_context\<lparr>env := [(''GITHUB_ACTION_PATH'', '''')]\<rparr>)
       \<noteq> Some (mk_path example_runtime '''')"
  by (simp add: action_path_def env_get_def example_context_def)

end
